theory Spec2Isabelle
  imports Complex_Main
begin

section \<open>The follower-side receiver of pyOmxSync (src/omxsync/receiver.py)\<close>

text \<open>
  The class \<open>Receiver\<close> is embedded as a record holding its attributes, and each of its
  methods as a function from the record to the updated record.

  Numbers: positions, durations and timestamps are Python floats in the source and
  \<open>real\<close> here, so arithmetic is exact: rounding, infinities and NaN are outside the model.

  The outside world of one call of \<open>update\<close> (the socket, the player's answers, the clock)
  is the record \<open>env\<close>. What the receiver does to the outside world is kept as two logs
  inside the receiver record: \<open>sent\<close>, the commands given to \<open>self.player\<close>, oldest first, and
  \<open>printed\<close>, the lines written by \<open>print\<close>.
\<close>

subsection \<open>Configuration and state\<close>

record config =
  verbose :: bool
  big_tolerance :: real
  tolerance :: real
  grace_time :: real
  jump_ahead :: real

text \<open>The module constants \<open>DEFAULT_BIG_TOLERANCE\<close>, \<open>DEFAULT_TOLERANCE\<close>, \<open>DEFAULT_GRACE_TIME\<close>
  and \<open>DEFAULT_JUMP_AHEAD\<close>, used when the options give nothing else.\<close>

definition default_config :: config where
  "default_config =
     \<lparr>verbose = False, big_tolerance = 2, tolerance = 5 / 100, grace_time = 3, jump_ahead = 3\<rparr>"

text \<open>The calls made on \<open>self.player\<close> that change it: \<open>play()\<close>, \<open>pause()\<close>, \<open>play_pause()\<close>,
  \<open>set_position(pos)\<close> and \<open>action(n)\<close>.\<close>

datatype command = Play | Pause | Play_pause | Set_position real | Action nat

text \<open>One constructor for each \<open>print\<close> of the source, with the values it formats.\<close>

datatype message =
    Resuming
  | Got real real real string int
  | Mismatch real "real option"
  | Median real
  | Paused_for real
  | Jumped real real

record receiver =
  received_position :: "real option"
  received_duration :: "real option"
  received_status :: "string option"
  last_measure_time :: real
  paused_until :: "real option"
  dont_sync_until :: real
  deviation :: real
  deviations :: "real list"
  median_deviation :: real
  duration_match :: "bool option"
  rate :: int
  sent :: "command list"
  printed :: "message list"

text \<open>The attributes as \<open>__init__\<close> sets them.\<close>

definition init :: receiver where
  "init =
     \<lparr>received_position = None, received_duration = None, received_status = None,
      last_measure_time = 0, paused_until = None, dont_sync_until = 0, deviation = 0,
      deviations = [], median_deviation = 0, duration_match = None, rate = 1,
      sent = [], printed = []\<rparr>"

text \<open>
  What one call of \<open>update\<close> reads from outside:
  \<^item> \<open>recv\<close>: the text \<open>self.socket.recv(1024).decode('utf-8')\<close>, or \<open>None\<close> when that
    expression raises (no datagram pending on the non-blocking socket, no socket, bytes
    that are not UTF-8);
  \<^item> \<open>position\<close>, \<open>playback_status\<close>, \<open>duration\<close>: the answers of the player, \<open>None\<close> as in
    Python;
  \<^item> \<open>now\<close>: the value of \<open>time()\<close>.
\<close>

record env =
  recv :: "string option"
  position :: "real option"
  playback_status :: "string option"
  now :: real
  duration :: "real option"

datatype exc = ValueError | TypeError

text \<open>How a call of \<open>update\<close> ends: by an exception that nothing catches, or at one of its
  \<open>return\<close> statements, named in the order of the source (\<open>Synced\<close> is the end of the body).\<close>

datatype outcome =
    Raised exc
  | No_position
  | No_status
  | Still_waiting
  | No_data
  | Leader_paused
  | Duration_mismatch
  | At_start
  | Near_end
  | Within_tolerance
  | In_grace
  | Synced

subsection \<open>Python built-ins used by the source\<close>

text \<open>\<open>s.split(sep, maxsplit)\<close> for a one-character separator: cuts at the first \<open>maxsplit\<close>
  separators, and the rest of the text is the last field.\<close>

fun py_split :: "char \<Rightarrow> nat \<Rightarrow> string \<Rightarrow> string list" where
  "py_split sep n [] = [[]]"
| "py_split sep n (c # cs) =
     (if c = sep \<and> 0 < n then [] # py_split sep (n - 1) cs
      else (case py_split sep n cs of
              [] \<Rightarrow> [[c]]
            | f # fs \<Rightarrow> (c # f) # fs))"

text \<open>\<open>xs[i:j]\<close>: a negative bound counts from the end, and both bounds are clamped to the
  list.\<close>

definition py_slice :: "'a list \<Rightarrow> int \<Rightarrow> int \<Rightarrow> 'a list" where
  "py_slice xs i j =
     (let n = int (length xs);
          a = (if i < 0 then max 0 (i + n) else min i n);
          b = (if j < 0 then max 0 (j + n) else min j n)
      in take (nat (b - a)) (drop (nat a) xs))"

text \<open>\<open>append\<close> on a \<open>collections.deque(maxlen=10)\<close>: a full deque drops its oldest element.\<close>

definition deque_append :: "'a list \<Rightarrow> 'a \<Rightarrow> 'a list" where
  "deque_append xs x = (if 10 \<le> length xs then tl xs @ [x] else xs @ [x])"

text \<open>
  \<open>float(s)\<close> on a string is a parameter \<open>flt\<close> of the model: \<open>flt s = None\<close> where \<open>float\<close>
  raises ValueError. The function \<open>decimal_float\<close> below is \<open>float\<close> on plain decimal
  strings (an optional sign, digits, an optional point and more digits; at least one
  digit), the wire format's numbers, and is what the concrete runs use.
\<close>

definition digit :: "char \<Rightarrow> nat option" where
  "digit c = map_of (zip ''0123456789'' [0, 1, 2, 3, 4, 5, 6, 7, 8, 9]) c"

fun digits_value :: "nat \<Rightarrow> string \<Rightarrow> nat option" where
  "digits_value acc [] = Some acc"
| "digits_value acc (c # cs) =
     (case digit c of None \<Rightarrow> None | Some d \<Rightarrow> digits_value (10 * acc + d) cs)"

definition unsigned_decimal :: "string \<Rightarrow> real option" where
  "unsigned_decimal s =
     (let whole = takeWhile (\<lambda>c. c \<noteq> CHR ''.'') s;
          frac = drop 1 (dropWhile (\<lambda>c. c \<noteq> CHR ''.'') s)
      in if whole = [] \<and> frac = [] then None
         else (case digits_value 0 whole of
                 None \<Rightarrow> None
               | Some a \<Rightarrow>
                   (case digits_value 0 frac of
                      None \<Rightarrow> None
                    | Some b \<Rightarrow> Some (real a + real b / 10 ^ length frac))))"

definition decimal_float :: "string \<Rightarrow> real option" where
  "decimal_float s =
     (case s of
        [] \<Rightarrow> None
      | c # cs \<Rightarrow>
          if c = CHR ''-'' then map_option uminus (unsigned_decimal cs)
          else if c = CHR ''+'' then unsigned_decimal cs
          else unsigned_decimal s)"

subsection \<open>The methods of \<open>Receiver\<close>\<close>

text \<open>
  \<open>_receive_data\<close>: the text is split at the first two \<open>%\<close>; unpacking into three names
  raises when there are fewer than three fields, and \<open>except Exception: pass\<close> turns every
  exception of the \<open>try\<close> block into \<open>None\<close>.
\<close>

definition receive_data :: "string option \<Rightarrow> (string \<times> string \<times> string) option" where
  "receive_data text =
     (case text of
        None \<Rightarrow> None
      | Some s \<Rightarrow>
          (case py_split (CHR ''%'') 2 s of
             [pos, dur, playback] \<Rightarrow> Some (pos, dur, playback)
           | _ \<Rightarrow> None))"

text \<open>\<open>_calculate_median\<close>.\<close>

definition calculate_median :: "real list \<Rightarrow> real" where
  "calculate_median lst =
     (let quotient = length lst div 2;
          remainder = length lst mod 2
      in if remainder \<noteq> 0 then sort lst ! quotient
         else sum_list (py_slice (sort lst) (int quotient - 1) (int quotient + 1)) / 2)"

text \<open>\<open>_perform_small_sync\<close>.\<close>

definition perform_small_sync :: "receiver \<Rightarrow> receiver" where
  "perform_small_sync r =
     (if deviation r < 0 \<and> 0 < rate r
        then r\<lparr>sent := sent r @ [Action 1], rate := rate r - 1\<rparr>
      else if 0 < deviation r \<and> rate r < 2
        then r\<lparr>sent := sent r @ [Action 2], rate := rate r + 1\<rparr>
      else r)"

text \<open>\<open>_reset_small_sync\<close>.\<close>

definition reset_small_sync :: "receiver \<Rightarrow> receiver" where
  "reset_small_sync r =
     (let r1 = (if rate r = 2 then r\<lparr>sent := sent r @ [Action 1]\<rparr>
                else if rate r = 0 then r\<lparr>sent := sent r @ [Action 2]\<rparr>
                else r)
      in r1\<lparr>rate := 1\<rparr>)"

text \<open>\<open>print\<close> under \<open>if self.verbose\<close>.\<close>

definition say :: "config \<Rightarrow> message \<Rightarrow> receiver \<Rightarrow> receiver" where
  "say cfg m r = (if verbose cfg then r\<lparr>printed := printed r @ [m]\<rparr> else r)"

text \<open>
  \<open>_perform_big_sync\<close>. In the second branch \<open>self.received_position + self.jump_ahead\<close>
  is a TypeError while \<open>received_position\<close> is still \<open>None\<close>; it is computed before the
  player is touched.
\<close>

definition perform_big_sync :: "config \<Rightarrow> receiver \<Rightarrow> exc option \<times> receiver" where
  "perform_big_sync cfg r =
     (if deviation r < 0 \<and> \<bar>deviation r\<bar> < jump_ahead cfg then
        (None,
         say cfg (Paused_for (- deviation r))
           (r\<lparr>sent := sent r @ [Pause],
              paused_until := Some (last_measure_time r - deviation r)\<rparr>))
      else
        (case received_position r of
           None \<Rightarrow> (Some TypeError, r)
         | Some rp \<Rightarrow>
             (let pos = rp + jump_ahead cfg
              in (None,
                  say cfg (Jumped pos (jump_ahead cfg))
                    (r\<lparr>sent := sent r @ [Pause, Set_position pos],
                       paused_until := Some (last_measure_time r + jump_ahead cfg)\<rparr>)))))"

text \<open>
  \<open>update\<close>, in three parts. The last part is the source from "calculate median
  deviation" to the end; the comparisons with \<open>received_position\<close> and \<open>received_duration\<close>
  read the attributes, which hold floats when this point is reached (a comparison with
  \<open>None\<close> would be a TypeError).
\<close>

definition evaluate_drift :: "config \<Rightarrow> real \<Rightarrow> receiver \<Rightarrow> outcome \<times> receiver" where
  "evaluate_drift cfg local_pos r =
     (let r1 = r\<lparr>deviations := deque_append (deviations r) (deviation r)\<rparr>;
          r2 = r1\<lparr>median_deviation := calculate_median (deviations r1)\<rparr>;
          r3 = say cfg (Median (median_deviation r2)) r2
      in case received_position r3 of
           None \<Rightarrow> (Raised TypeError, r3)
         | Some rp \<Rightarrow>
             if rp \<le> grace_time cfg then (At_start, r3)
             else
               (case received_duration r3 of
                  None \<Rightarrow> (Raised TypeError, r3)
                | Some rd \<Rightarrow>
                    if rd - local_pos < grace_time cfg then
                      (Near_end, if rate r3 \<noteq> 1 then reset_small_sync r3 else r3)
                    else if \<bar>median_deviation r3\<bar> \<le> tolerance cfg then
                      (Within_tolerance, if rate r3 \<noteq> 1 then reset_small_sync r3 else r3)
                    else if last_measure_time r3 < dont_sync_until r3 then (In_grace, r3)
                    else (Synced, perform_small_sync (r3\<lparr>deviations := []\<rparr>))))"

text \<open>
  The middle part: from "no data? no action." to the duration check. \<open>float\<close> is applied
  to the two fields outside any \<open>try\<close>, the position first, so a field that is not a
  number ends the call with a ValueError. \<open>float(self.player.duration())\<close> is a TypeError
  when the player gives \<open>None\<close>. On a mismatch \<open>duration_match\<close> is left as it is.
\<close>

definition handle_data ::
  "(string \<Rightarrow> real option) \<Rightarrow> config \<Rightarrow> env \<Rightarrow> real \<Rightarrow> string \<Rightarrow>
     (string \<times> string \<times> string) option \<Rightarrow> receiver \<Rightarrow> outcome \<times> receiver" where
  "handle_data flt cfg e local_pos local_status data r =
     (case data of
        None \<Rightarrow> (No_data, r)
      | Some (pos, dur, playback) \<Rightarrow>
          (case flt pos of
             None \<Rightarrow> (Raised ValueError, r)
           | Some fp \<Rightarrow>
               (case flt dur of
                  None \<Rightarrow> (Raised ValueError, r\<lparr>received_position := Some fp\<rparr>)
                | Some fd \<Rightarrow>
                    (let r1 = r\<lparr>received_position := Some fp,
                                received_duration := Some fd,
                                received_status := Some playback\<rparr>;
                         r2 = (if local_status \<noteq> playback
                               then r1\<lparr>sent := sent r1 @ [Play_pause]\<rparr> else r1)
                     in if playback = ''Paused'' then (Leader_paused, r2)
                        else
                          (let r3 = r2\<lparr>deviation := fp - local_pos\<rparr>;
                               r4 = say cfg (Got fd fp (deviation r3) local_status (rate r3)) r3
                           in if duration_match r4 = None then
                                (case duration e of
                                   None \<Rightarrow> (Raised TypeError, r4)
                                 | Some ld \<Rightarrow>
                                     if fd \<noteq> ld then
                                       (Duration_mismatch,
                                        r4\<lparr>printed := printed r4 @ [Mismatch fd (duration e)]\<rparr>)
                                     else evaluate_drift cfg local_pos
                                            (r4\<lparr>duration_match := Some True\<rparr>))
                              else evaluate_drift cfg local_pos r4)))))"

text \<open>The lines under "stop waiting and resume playback".\<close>

definition resume :: "config \<Rightarrow> receiver \<Rightarrow> receiver" where
  "resume cfg r =
     (let r1 = say cfg Resuming (r\<lparr>paused_until := None, sent := sent r @ [Play]\<rparr>)
      in r1\<lparr>dont_sync_until := last_measure_time r1 + grace_time cfg\<rparr>)"

text \<open>
  The first part. The datagram is taken from the socket before anything else. The test
  \<open>if self.paused_until:\<close> is Python truth: \<open>None\<close> and \<open>0.0\<close> are both false.
\<close>

definition update ::
  "(string \<Rightarrow> real option) \<Rightarrow> config \<Rightarrow> env \<Rightarrow> receiver \<Rightarrow> outcome \<times> receiver" where
  "update flt cfg e r =
     (let data = receive_data (recv e)
      in case position e of
           None \<Rightarrow> (No_position, r)
         | Some local_pos \<Rightarrow>
             (case playback_status e of
                None \<Rightarrow> (No_status, r)
              | Some local_status \<Rightarrow>
                  (let r1 = r\<lparr>last_measure_time := now e\<rparr>
                   in case paused_until r1 of
                        None \<Rightarrow> handle_data flt cfg e local_pos local_status data r1
                      | Some until \<Rightarrow>
                          if until = 0 then handle_data flt cfg e local_pos local_status data r1
                          else if last_measure_time r1 < until then (Still_waiting, r1)
                          else handle_data flt cfg e local_pos local_status data
                                 (resume cfg r1))))"

text \<open>
  \<open>update_loop\<close>, run on a finite list of rounds: each round is the status the loop
  condition reads and the environment of the call of \<open>update\<close> that follows. The loop ends
  when the status is "Stopped" or when \<open>update\<close> raises; when the list is used up the
  loop is still running, and the state reached so far is returned.
\<close>

fun update_loop ::
  "(string \<Rightarrow> real option) \<Rightarrow> config \<Rightarrow> (string option \<times> env) list \<Rightarrow> receiver \<Rightarrow>
     exc option \<times> receiver" where
  "update_loop flt cfg [] r = (None, r)"
| "update_loop flt cfg ((status, e) # rounds) r =
     (if status = Some ''Stopped'' then (None, r)
      else (case update flt cfg e r of
              (Raised x, r') \<Rightarrow> (Some x, r')
            | (_, r') \<Rightarrow> update_loop flt cfg rounds r'))"

subsection \<open>Environments for concrete runs\<close>

text \<open>A round in which a datagram with the given text is pending, the player is playing
  and answers every read (its position, its duration), and the clock shows \<open>t\<close>.\<close>

definition reading :: "string \<Rightarrow> real \<Rightarrow> real \<Rightarrow> real \<Rightarrow> env" where
  "reading text local_pos local_dur t =
     \<lparr>recv = Some text, position = Some local_pos, playback_status = Some ''Playing'',
      now = t, duration = Some local_dur\<rparr>"

section \<open>Properties\<close>

subsection \<open>The median filter\<close>

lemma take2_drop: "Suc k < length xs \<Longrightarrow> take 2 (drop k xs) = [xs ! k, xs ! Suc k]"
proof -
  assume h: "Suc k < length xs"
  have "drop k xs = xs ! k # drop (Suc k) xs" using h by (simp add: Cons_nth_drop_Suc)
  moreover have "drop (Suc k) xs = xs ! Suc k # drop (Suc (Suc k)) xs" using h by (simp add: Cons_nth_drop_Suc)
  ultimately show ?thesis by (simp add: numeral_2_eq_2)
qed

lemma py_slice_middle:
  assumes "0 < q" "q < length xs"
  shows "py_slice xs (int q - 1) (int q + 1) = [xs ! (q - 1), xs ! q]"
proof -
  obtain k where k: "q = Suc k" using assms(1) by (cases q) auto
  have "py_slice xs (int q - 1) (int q + 1) = take 2 (drop k xs)"
    using assms k by (simp add: py_slice_def Let_def min_def nat_add_distrib)
  then show ?thesis using take2_drop[of k xs] assms k by simp
qed

text \<open>
  C4. For every non-empty list of deviations \<open>_calculate_median\<close> returns the median: for
  an odd length the element at index \<open>n div 2\<close> of the sorted list, for an even length the
  mean of the two central elements of the sorted list. The spec's two examples are the
  last two conjuncts.
\<close>

theorem calculate_median_is_median:
  "(lst \<noteq> [] \<longrightarrow>
      calculate_median lst =
        (if odd (length lst) then sort lst ! (length lst div 2)
         else (sort lst ! (length lst div 2 - 1) + sort lst ! (length lst div 2)) / 2))
   \<and> calculate_median [1, 2, 3] = 2 \<and> calculate_median [1, 2, 3, 4] = 5 / 2"
proof (intro conjI impI)
  assume ne: "lst \<noteq> []"
  show "calculate_median lst =
        (if odd (length lst) then sort lst ! (length lst div 2)
         else (sort lst ! (length lst div 2 - 1) + sort lst ! (length lst div 2)) / 2)"
  proof (cases "odd (length lst)")
    case True
    then show ?thesis by (simp add: calculate_median_def Let_def odd_iff_mod_2_eq_one)
  next
    case False
    then have ev: "even (length lst)" by simp
    have pos: "0 < length lst div 2" using ev ne by (cases lst) (auto elim: evenE)
    have lt: "length lst div 2 < length (sort lst)" using ne by simp
    show ?thesis using False ev py_slice_middle[OF pos lt]
      by (simp add: calculate_median_def Let_def)
  qed
next
  show "calculate_median [1, 2, 3] = 2" by (simp add: calculate_median_def)
next
  show "calculate_median [1, 2, 3, 4] = 5 / 2" by (simp add: calculate_median_def py_slice_def)
qed

theorem calculate_median_is_median_witness:
  "[7, 1, 4, 2] \<noteq> ([] :: real list) \<and> calculate_median [7, 1, 4, 2] = 3
   \<and> [3, 9, 1] \<noteq> ([] :: real list) \<and> calculate_median [3, 9, 1] = 3"
  using calculate_median_is_median [of "[7, 1, 4, 2]"] calculate_median_is_median [of "[3, 9, 1]"]
  by simp

subsection \<open>The rate level and its reset\<close>

text \<open>
  C9. \<open>_reset_small_sync\<close> at rate level 0 sends exactly one speed-up command
  (\<open>action(2)\<close>), at level 2 exactly one slow-down command (\<open>action(1)\<close>), at level 1
  nothing; afterwards the level is 1 in every case.
\<close>

theorem reset_small_sync_restores_rate:
  "(rate r = 0 \<longrightarrow> sent (reset_small_sync r) = sent r @ [Action 2])
   \<and> (rate r = 2 \<longrightarrow> sent (reset_small_sync r) = sent r @ [Action 1])
   \<and> (rate r = 1 \<longrightarrow> sent (reset_small_sync r) = sent r)
   \<and> rate (reset_small_sync r) = 1"
  by (simp add: reset_small_sync_def)

theorem reset_small_sync_restores_rate_witness:
  "rate (init\<lparr>rate := 0\<rparr>) = 0
   \<and> sent (reset_small_sync (init\<lparr>rate := 0\<rparr>)) = [Action 2]
   \<and> rate (init\<lparr>rate := 2\<rparr>) = 2
   \<and> sent (reset_small_sync (init\<lparr>rate := 2\<rparr>)) = [Action 1]
   \<and> rate init = 1
   \<and> sent (reset_small_sync init) = []
   \<and> rate (reset_small_sync (init\<lparr>rate := 0\<rparr>)) = 1"
  using reset_small_sync_restores_rate [of "init\<lparr>rate := 0\<rparr>"]
        reset_small_sync_restores_rate [of "init\<lparr>rate := 2\<rparr>"]
        reset_small_sync_restores_rate [of init]
  by (simp add: init_def)

subsection \<open>The big sync\<close>

text \<open>
  C5. \<open>_perform_big_sync\<close>, once a leader position has been received. With the follower
  ahead (deviation below 0) by less than \<open>jump_ahead\<close>: the only command is \<open>pause\<close> (no
  seek) and \<open>paused_until\<close> becomes now minus the deviation. Otherwise (follower behind,
  or ahead by \<open>jump_ahead\<close> or more): \<open>pause\<close>, then a seek to the leader position plus
  \<open>jump_ahead\<close>, and \<open>paused_until\<close> becomes now plus \<open>jump_ahead\<close>. "Now" is
  \<open>last_measure_time\<close>, the clock value of the latest call of \<open>update\<close>.
\<close>

theorem perform_big_sync_cases:
  assumes "received_position r = Some leader_pos"
  shows "(deviation r < 0 \<and> - deviation r < jump_ahead cfg \<longrightarrow>
            fst (perform_big_sync cfg r) = None
            \<and> sent (snd (perform_big_sync cfg r)) = sent r @ [Pause]
            \<and> paused_until (snd (perform_big_sync cfg r))
                = Some (last_measure_time r - deviation r))
       \<and> (\<not> (deviation r < 0 \<and> - deviation r < jump_ahead cfg) \<longrightarrow>
            fst (perform_big_sync cfg r) = None
            \<and> sent (snd (perform_big_sync cfg r))
                = sent r @ [Pause, Set_position (leader_pos + jump_ahead cfg)]
            \<and> paused_until (snd (perform_big_sync cfg r))
                = Some (last_measure_time r + jump_ahead cfg))"
  using assms by (auto simp add: perform_big_sync_def say_def Let_def)

theorem perform_big_sync_cases_witness:
  "received_position (init\<lparr>received_position := Some 50, last_measure_time := 1000,
       deviation := - 3 / 2\<rparr>) = Some 50
   \<and> sent (snd (perform_big_sync default_config
        (init\<lparr>received_position := Some 50, last_measure_time := 1000,
           deviation := - 3 / 2\<rparr>))) = [Pause]
   \<and> paused_until (snd (perform_big_sync default_config
        (init\<lparr>received_position := Some 50, last_measure_time := 1000,
           deviation := - 3 / 2\<rparr>))) = Some (1000 + 3 / 2)
   \<and> received_position (init\<lparr>received_position := Some 50, last_measure_time := 1000,
       deviation := 5\<rparr>) = Some 50
   \<and> sent (snd (perform_big_sync default_config
        (init\<lparr>received_position := Some 50, last_measure_time := 1000,
           deviation := 5\<rparr>))) = [Pause, Set_position 53]
   \<and> paused_until (snd (perform_big_sync default_config
        (init\<lparr>received_position := Some 50, last_measure_time := 1000,
           deviation := 5\<rparr>))) = Some 1003"
  using perform_big_sync_cases [of "init\<lparr>received_position := Some 50, last_measure_time := 1000,
           deviation := - 3 / 2\<rparr>" 50 default_config]
        perform_big_sync_cases [of "init\<lparr>received_position := Some 50, last_measure_time := 1000,
           deviation := 5\<rparr>" 50 default_config]
  by (simp add: init_def default_config_def)

text \<open>
  The big sync itself leaves the deviation history as it is, and no call of \<open>update\<close>
  reaches it (see \<open>update_sent\<close> below: \<open>update\<close> never sends \<open>pause\<close> or a seek).
\<close>

lemma perform_big_sync_keeps_history:
  "deviations (snd (perform_big_sync cfg r)) = deviations r"
  by (simp add: perform_big_sync_def say_def Let_def split: option.splits)

subsection \<open>The parts of \<open>update\<close>\<close>

lemma say_fields:
  "sent (say cfg m r) = sent r" "rate (say cfg m r) = rate r"
  "deviation (say cfg m r) = deviation r" "deviations (say cfg m r) = deviations r"
  "median_deviation (say cfg m r) = median_deviation r"
  "paused_until (say cfg m r) = paused_until r"
  "dont_sync_until (say cfg m r) = dont_sync_until r"
  "duration_match (say cfg m r) = duration_match r"
  "last_measure_time (say cfg m r) = last_measure_time r"
  "received_position (say cfg m r) = received_position r"
  "received_duration (say cfg m r) = received_duration r"
  "received_status (say cfg m r) = received_status r"
  by (simp_all add: say_def)

lemma evaluate_drift_sent:
  assumes "evaluate_drift cfg local_pos r = (out, r')"
  shows "\<exists>cs. sent r' = sent r @ cs
           \<and> (\<forall>c\<in>set cs. \<exists>a. c = Action a)
           \<and> (cs \<noteq> [] \<longrightarrow>
                 out = Synced \<and> deviations r' = []
                 \<or> (out = Near_end \<or> out = Within_tolerance) \<and> rate r \<noteq> 1 \<and> rate r' = 1)"
  using assms
  by (auto simp add: evaluate_drift_def Let_def say_fields reset_small_sync_def
      perform_small_sync_def split: option.splits if_splits)

lemma evaluate_drift_Synced:
  assumes "evaluate_drift cfg local_pos r = (Synced, r')"
  shows "deviations r' = []"
    and "deviation r' = deviation r"
    and "deviation r = 0 \<Longrightarrow> rate r' = rate r \<and> sent r' = sent r"
  using assms
  by (auto simp add: evaluate_drift_def Let_def say_fields perform_small_sync_def
      split: option.splits if_splits)

lemma evaluate_drift_rate:
  assumes "evaluate_drift cfg local_pos r = (out, r')" "0 \<le> rate r" "rate r \<le> 2"
  shows "0 \<le> rate r' \<and> rate r' \<le> 2 \<and> \<bar>rate r' - rate r\<bar> \<le> 1"
  using assms
  by (auto simp add: evaluate_drift_def Let_def say_fields reset_small_sync_def
      perform_small_sync_def split: option.splits if_splits)

lemma evaluate_drift_keeps:
  assumes "evaluate_drift cfg local_pos r = (out, r')"
  shows "paused_until r' = paused_until r" "dont_sync_until r' = dont_sync_until r"
    "duration_match r' = duration_match r" "out \<noteq> Duration_mismatch" "out \<noteq> Leader_paused"
    "\<exists>ms. printed r' = printed r @ ms \<and> (\<forall>m\<in>set ms. \<exists>x. m = Median x)"
  using assms
  by (auto simp add: evaluate_drift_def Let_def say_def reset_small_sync_def
      perform_small_sync_def split: option.splits if_splits)

lemma handle_data_sent:
  assumes "handle_data flt cfg e local_pos local_status data r = (out, r')"
  shows "\<exists>pre cs. sent r' = sent r @ pre @ cs
           \<and> (pre = [] \<or> pre = [Play_pause])
           \<and> (\<forall>c\<in>set cs. \<exists>a. c = Action a)
           \<and> (cs \<noteq> [] \<longrightarrow>
                 out = Synced \<and> deviations r' = []
                 \<or> (out = Near_end \<or> out = Within_tolerance) \<and> rate r \<noteq> 1 \<and> rate r' = 1)"
proof (cases data)
  case None
  then show ?thesis using assms by (auto simp add: handle_data_def)
next
  case (Some t)
  obtain p d s where t: "t = (p, d, s)" by (cases t)
  show ?thesis
  proof (cases "flt p")
    case None
    then show ?thesis using assms Some t by (auto simp add: handle_data_def)
  next
    case fp: (Some fp)
    show ?thesis
    proof (cases "flt d")
      case None
      then show ?thesis using assms Some t fp by (auto simp add: handle_data_def)
    next
      case fd: (Some fd)
      define r2 where "r2 = r\<lparr>received_position := Some fp, received_duration := Some fd,
         received_status := Some s,
         sent := sent r @ (if local_status \<noteq> s then [Play_pause] else [])\<rparr>"
      have pre: "\<exists>pre. sent r2 = sent r @ pre \<and> (pre = [] \<or> pre = [Play_pause])"
        by (simp add: r2_def)
      consider (paused) "out = Leader_paused" "r' = r2"
        | (raised) "out = Raised TypeError" "sent r' = sent r2"
        | (mismatch) "out = Duration_mismatch" "sent r' = sent r2"
        | (drift) r4 where "evaluate_drift cfg local_pos r4 = (out, r')" "sent r4 = sent r2"
            "rate r4 = rate r"
        using assms Some t fp fd
        by (auto simp add: handle_data_def Let_def r2_def say_fields
            split: if_splits option.splits)
      then show ?thesis
      proof cases
        case paused
        then show ?thesis using pre by auto
      next
        case raised
        then show ?thesis using pre by auto
      next
        case mismatch
        then show ?thesis using pre by auto
      next
        case drift
        from evaluate_drift_sent[OF drift(1)] obtain cs where
          cs: "sent r' = sent r4 @ cs" "\<forall>c\<in>set cs. \<exists>a. c = Action a"
            "cs \<noteq> [] \<longrightarrow> out = Synced \<and> deviations r' = []
                 \<or> (out = Near_end \<or> out = Within_tolerance) \<and> rate r4 \<noteq> 1 \<and> rate r' = 1"
          by blast
        from pre obtain pre where p: "sent r2 = sent r @ pre" "pre = [] \<or> pre = [Play_pause]"
          by blast
        have "sent r' = sent r @ pre @ cs" using cs(1) drift(2) p(1) by simp
        then show ?thesis using p(2) cs(2,3) drift(3) by metis
      qed
    qed
  qed
qed

lemma handle_data_sample:
  assumes "handle_data flt cfg e local_pos local_status (Some (p, d, s)) r = (out, r')"
    and "flt p = Some fp" and "flt d = Some fd"
  shows "\<exists>cs. sent r' = sent r @ (if local_status \<noteq> s then [Play_pause] else []) @ cs
           \<and> (\<forall>c\<in>set cs. \<exists>a. c = Action a)
           \<and> (s = ''Paused'' \<longrightarrow> cs = [])"
    and "s = ''Paused'' \<Longrightarrow>
           out = Leader_paused \<and> deviation r' = deviation r \<and> deviations r' = deviations r
           \<and> median_deviation r' = median_deviation r \<and> rate r' = rate r"
proof -
  define r2 where "r2 = r\<lparr>received_position := Some fp, received_duration := Some fd,
     received_status := Some s,
     sent := sent r @ (if local_status \<noteq> s then [Play_pause] else [])\<rparr>"
  consider (paused) "s = ''Paused''" "out = Leader_paused" "r' = r2"
    | (stopped) "s \<noteq> ''Paused''" "sent r' = sent r2"
    | (drift) r4 where "s \<noteq> ''Paused''" "evaluate_drift cfg local_pos r4 = (out, r')"
        "sent r4 = sent r2"
    using assms
    by (auto simp add: handle_data_def Let_def r2_def say_fields
        split: if_splits option.splits)
  then show "\<exists>cs. sent r' = sent r @ (if local_status \<noteq> s then [Play_pause] else []) @ cs
           \<and> (\<forall>c\<in>set cs. \<exists>a. c = Action a)
           \<and> (s = ''Paused'' \<longrightarrow> cs = [])"
  proof cases
    case paused
    then show ?thesis by (simp add: r2_def)
  next
    case stopped
    then show ?thesis by (simp add: r2_def)
  next
    case drift
    from evaluate_drift_sent[OF drift(2)] obtain cs where
      "sent r' = sent r4 @ cs" "\<forall>c\<in>set cs. \<exists>a. c = Action a"
      by blast
    then show ?thesis using drift(1,3) by (simp add: r2_def)
  qed
  show "s = ''Paused'' \<Longrightarrow>
           out = Leader_paused \<and> deviation r' = deviation r \<and> deviations r' = deviations r
           \<and> median_deviation r' = median_deviation r \<and> rate r' = rate r"
    using assms by (auto simp add: handle_data_def Let_def split: if_splits)
qed

lemma handle_data_rate:
  assumes "handle_data flt cfg e local_pos local_status data r = (out, r')"
    and "0 \<le> rate r" and "rate r \<le> 2"
  shows "0 \<le> rate r' \<and> rate r' \<le> 2 \<and> \<bar>rate r' - rate r\<bar> \<le> 1"
proof -
  consider (stopped) "rate r' = rate r"
    | (drift) r4 where "evaluate_drift cfg local_pos r4 = (out, r')" "rate r4 = rate r"
    using assms(1)
    by (auto simp add: handle_data_def Let_def say_fields
        split: if_splits option.splits prod.splits)
  then show ?thesis
  proof cases
    case stopped
    then show ?thesis using assms(2,3) by simp
  next
    case drift
    then show ?thesis using evaluate_drift_rate[OF drift(1)] assms(2,3) by simp
  qed
qed

lemma handle_data_keeps:
  assumes "handle_data flt cfg e local_pos local_status data r = (out, r')"
  shows "paused_until r' = paused_until r \<and> dont_sync_until r' = dont_sync_until r"
proof -
  consider (stopped) "paused_until r' = paused_until r" "dont_sync_until r' = dont_sync_until r"
    | (drift) r4 where "evaluate_drift cfg local_pos r4 = (out, r')"
        "paused_until r4 = paused_until r" "dont_sync_until r4 = dont_sync_until r"
    using assms(1)
    by (auto simp add: handle_data_def Let_def say_fields
        split: if_splits option.splits prod.splits)
  then show ?thesis
  proof cases
    case stopped
    then show ?thesis by simp
  next
    case drift
    then show ?thesis using evaluate_drift_keeps(1,2)[OF drift(1)] by simp
  qed
qed

lemma handle_data_Synced:
  assumes "handle_data flt cfg e local_pos local_status data r = (Synced, r')"
  shows "deviations r' = []"
    and "deviation r' = 0 \<Longrightarrow>
           rate r' = rate r \<and> (\<exists>pre. sent r' = sent r @ pre \<and> (pre = [] \<or> pre = [Play_pause]))"
proof -
  obtain r4 where r4: "evaluate_drift cfg local_pos r4 = (Synced, r')" "rate r4 = rate r"
    "\<exists>pre. sent r4 = sent r @ pre \<and> (pre = [] \<or> pre = [Play_pause])"
    using assms
    by (auto simp add: handle_data_def Let_def say_fields split: if_splits option.splits)
  show "deviations r' = []" using evaluate_drift_Synced(1)[OF r4(1)] .
  assume "deviation r' = 0"
  then have "deviation r4 = 0" using evaluate_drift_Synced(2)[OF r4(1)] by simp
  then have "rate r' = rate r4" "sent r' = sent r4"
    using evaluate_drift_Synced(3)[OF r4(1)] by simp_all
  then show "rate r' = rate r \<and> (\<exists>pre. sent r' = sent r @ pre \<and> (pre = [] \<or> pre = [Play_pause]))"
    using r4(2,3) by simp
qed

lemma handle_data_duration_check:
  assumes "handle_data flt cfg e local_pos local_status (Some (p, d, leader_status)) r = (out, r')"
    and "flt p = Some fp" and "flt d = Some leader_dur"
    and "leader_status \<noteq> ''Paused''"
    and "duration_match r = None" and "duration e = Some local_dur"
  shows "leader_dur \<noteq> local_dur \<Longrightarrow>
            out = Duration_mismatch \<and> duration_match r' = None
            \<and> (\<exists>ms. printed r' = printed r @ ms @ [Mismatch leader_dur (Some local_dur)]
                  \<and> (\<forall>m\<in>set ms. \<forall>a b. m \<noteq> Mismatch a b))
            \<and> rate r' = rate r \<and> deviations r' = deviations r
            \<and> (\<exists>cs. sent r' = sent r @ cs \<and> (\<forall>a. Action a \<notin> set cs))"
    and "leader_dur = local_dur \<Longrightarrow>
            out \<noteq> Duration_mismatch \<and> duration_match r' = Some True
            \<and> (\<exists>ms. printed r' = printed r @ ms \<and> (\<forall>m\<in>set ms. \<forall>a b. m \<noteq> Mismatch a b))"
proof -
  assume "leader_dur \<noteq> local_dur"
  then show "out = Duration_mismatch \<and> duration_match r' = None
            \<and> (\<exists>ms. printed r' = printed r @ ms @ [Mismatch leader_dur (Some local_dur)]
                  \<and> (\<forall>m\<in>set ms. \<forall>a b. m \<noteq> Mismatch a b))
            \<and> rate r' = rate r \<and> deviations r' = deviations r
            \<and> (\<exists>cs. sent r' = sent r @ cs \<and> (\<forall>a. Action a \<notin> set cs))"
    using assms
    by (cases "verbose cfg"; cases "local_status = leader_status")
       (auto simp add: handle_data_def Let_def say_def)
next
  assume "leader_dur = local_dur"
  then obtain r4 where r4: "evaluate_drift cfg local_pos r4 = (out, r')"
    "duration_match r4 = Some True"
    "\<exists>ms. printed r4 = printed r @ ms \<and> (\<forall>m\<in>set ms. \<forall>a b. m \<noteq> Mismatch a b)"
    using assms
    by (cases "verbose cfg"; cases "local_status = leader_status")
       (auto simp add: handle_data_def Let_def say_def)
  from evaluate_drift_keeps(6)[OF r4(1)] r4(3)
  obtain ms ms' where "printed r' = printed r @ ms @ ms'"
    "\<forall>m\<in>set ms. \<forall>a b. m \<noteq> Mismatch a b" "\<forall>m\<in>set ms'. \<exists>x. m = Median x"
    by auto
  then have "\<exists>ms. printed r' = printed r @ ms \<and> (\<forall>m\<in>set ms. \<forall>a b. m \<noteq> Mismatch a b)"
    by (intro exI[of _ "ms @ ms'"]) auto
  then show "out \<noteq> Duration_mismatch \<and> duration_match r' = Some True
            \<and> (\<exists>ms. printed r' = printed r @ ms \<and> (\<forall>m\<in>set ms. \<forall>a b. m \<noteq> Mismatch a b))"
    using evaluate_drift_keeps(3,4)[OF r4(1)] r4(2) by simp
qed

lemma resume_fields:
  "sent (resume cfg r) = sent r @ [Play]" "rate (resume cfg r) = rate r"
  "deviations (resume cfg r) = deviations r" "paused_until (resume cfg r) = None"
  "dont_sync_until (resume cfg r) = last_measure_time r + grace_time cfg"
  by (simp_all add: resume_def Let_def say_def)

lemma resume_log:
  "duration_match (resume cfg r) = duration_match r"
  "\<exists>ms. printed (resume cfg r) = printed r @ ms \<and> (\<forall>m\<in>set ms. \<forall>a b. m \<noteq> Mismatch a b)"
  by (simp_all add: resume_def Let_def say_def)

text \<open>
  The ways a call of \<open>update\<close> can go: it returns before looking at the clock, it
  returns because the pause is not over, or it goes on to the datagram, after resuming
  playback or directly.
\<close>

lemma update_cases:
  assumes "update flt cfg e r = (out, r')"
  obtains
    (unread) "out = No_position \<or> out = No_status" "r' = r"
  | (waiting) "out = Still_waiting" "r' = r\<lparr>last_measure_time := now e\<rparr>"
  | (resumed) local_pos local_status where
      "handle_data flt cfg e local_pos local_status (receive_data (recv e))
         (resume cfg (r\<lparr>last_measure_time := now e\<rparr>)) = (out, r')"
  | (direct) local_pos local_status where
      "handle_data flt cfg e local_pos local_status (receive_data (recv e))
         (r\<lparr>last_measure_time := now e\<rparr>) = (out, r')"
proof -
  have "(out = No_position \<or> out = No_status) \<and> r' = r
      \<or> out = Still_waiting \<and> r' = r\<lparr>last_measure_time := now e\<rparr>
      \<or> (\<exists>local_pos local_status.
            handle_data flt cfg e local_pos local_status (receive_data (recv e))
              (resume cfg (r\<lparr>last_measure_time := now e\<rparr>)) = (out, r'))
      \<or> (\<exists>local_pos local_status.
            handle_data flt cfg e local_pos local_status (receive_data (recv e))
              (r\<lparr>last_measure_time := now e\<rparr>) = (out, r'))"
    using assms
    by (simp add: update_def Let_def split: option.splits if_splits) blast+
  then show thesis using that by blast
qed

lemma update_sent:
  assumes "update flt cfg e r = (out, r')"
  shows "\<exists>res pre cs. sent r' = sent r @ res @ pre @ cs
           \<and> (res = [] \<or> res = [Play]) \<and> (pre = [] \<or> pre = [Play_pause])
           \<and> (\<forall>c\<in>set cs. \<exists>a. c = Action a)
           \<and> (cs \<noteq> [] \<longrightarrow>
                 out = Synced \<and> deviations r' = []
                 \<or> (out = Near_end \<or> out = Within_tolerance) \<and> rate r \<noteq> 1 \<and> rate r' = 1)"
  using assms
proof (cases rule: update_cases)
  case unread
  then show ?thesis by simp
next
  case waiting
  then show ?thesis by simp
next
  case (resumed local_pos local_status)
  from handle_data_sent[OF resumed] obtain pre cs where
    "sent r' = (sent r @ [Play]) @ pre @ cs" "pre = [] \<or> pre = [Play_pause]"
    "\<forall>c\<in>set cs. \<exists>a. c = Action a"
    "cs \<noteq> [] \<longrightarrow> out = Synced \<and> deviations r' = []
       \<or> (out = Near_end \<or> out = Within_tolerance) \<and> rate r \<noteq> 1 \<and> rate r' = 1"
    by (auto simp add: resume_fields)
  then show ?thesis by (intro exI[of _ "[Play]"] exI[of _ pre] exI[of _ cs]) simp
next
  case (direct local_pos local_status)
  from handle_data_sent[OF direct] obtain pre cs where
    "sent r' = sent r @ pre @ cs" "pre = [] \<or> pre = [Play_pause]"
    "\<forall>c\<in>set cs. \<exists>a. c = Action a"
    "cs \<noteq> [] \<longrightarrow> out = Synced \<and> deviations r' = []
       \<or> (out = Near_end \<or> out = Within_tolerance) \<and> rate r \<noteq> 1 \<and> rate r' = 1"
    by auto
  then show ?thesis by (intro exI[of _ "[]"] exI[of _ pre] exI[of _ cs]) simp
qed

lemma update_rate:
  assumes "0 \<le> rate r" and "rate r \<le> 2"
  shows "0 \<le> rate (snd (update flt cfg e r)) \<and> rate (snd (update flt cfg e r)) \<le> 2
         \<and> \<bar>rate (snd (update flt cfg e r)) - rate r\<bar> \<le> 1"
proof -
  obtain out r' where u: "update flt cfg e r = (out, r')" by (cases "update flt cfg e r")
  from u have "0 \<le> rate r' \<and> rate r' \<le> 2 \<and> \<bar>rate r' - rate r\<bar> \<le> 1"
  proof (cases rule: update_cases)
    case unread
    then show ?thesis using assms by simp
  next
    case waiting
    then show ?thesis using assms by simp
  next
    case (resumed local_pos local_status)
    then show ?thesis using handle_data_rate[OF resumed] assms by (simp add: resume_fields)
  next
    case (direct local_pos local_status)
    then show ?thesis using handle_data_rate[OF direct] assms by simp
  qed
  then show ?thesis using u by simp
qed

lemma update_loop_rate:
  "0 \<le> rate r \<Longrightarrow> rate r \<le> 2 \<Longrightarrow>
     0 \<le> rate (snd (update_loop flt cfg rounds r)) \<and> rate (snd (update_loop flt cfg rounds r)) \<le> 2"
proof (induction rounds arbitrary: r)
  case Nil
  then show ?case by simp
next
  case (Cons a rounds)
  obtain status e where a: "a = (status, e)" by (cases a)
  obtain out r' where u: "update flt cfg e r = (out, r')" by (cases "update flt cfg e r")
  have r': "0 \<le> rate r' \<and> rate r' \<le> 2" using update_rate[OF Cons.prems, of flt cfg e] u by simp
  show ?case
  proof (cases "status = Some ''Stopped''")
    case True
    then show ?thesis using a Cons.prems by simp
  next
    case False
    show ?thesis
    proof (cases out)
      case (Raised x)
      then show ?thesis using a False u r' by simp
    qed (use a False u r' Cons.IH[of r'] in simp_all)
  qed
qed

subsection \<open>Datagrams\<close>

text \<open>
  \<open>_receive_data\<close> gives \<open>None\<close> for a text exactly when it has fewer than two \<open>%\<close>,
  and \<open>update\<close> then does what it does when nothing was received.
\<close>

lemma py_split_length: "length (py_split sep n s) = Suc (min n (count_list s sep))"
proof (induction s arbitrary: n)
  case Nil
  then show ?case by simp
next
  case (Cons c cs)
  show ?case
  proof (cases "c = sep \<and> 0 < n")
    case True
    then obtain m where "n = Suc m" by (cases n) auto
    then show ?thesis using True Cons.IH[of m] by simp
  next
    case False
    obtain f fs where "py_split sep n cs = f # fs"
      using Cons.IH[of n] by (cases "py_split sep n cs") auto
    then show ?thesis using False Cons.IH[of n] by auto
  qed
qed

lemma receive_data_None_length:
  "receive_data (Some s) = None \<longleftrightarrow> length (py_split (CHR ''%'') 2 s) \<noteq> 3"
  by (simp add: receive_data_def split: list.splits)

lemma receive_data_None_iff:
  "receive_data (Some s) = None \<longleftrightarrow> count_list s (CHR ''%'') < 2"
  unfolding receive_data_None_length py_split_length by auto

lemma update_unparsed_as_no_data:
  "receive_data (recv e) = None \<Longrightarrow> update flt cfg e r = update flt cfg (e\<lparr>recv := None\<rparr>) r"
  by (simp add: update_def handle_data_def receive_data_def Let_def split: option.splits)

text \<open>
  A datagram with three fields whose position or duration \<open>float\<close> rejects ends the call
  with a ValueError, whatever \<open>float\<close> is.
\<close>

lemma handle_data_non_numeric:
  "flt p = None \<or> flt d = None \<Longrightarrow>
     fst (handle_data flt cfg e local_pos local_status (Some (p, d, s)) r) = Raised ValueError"
  by (auto simp add: handle_data_def split: option.splits)

lemma non_numeric_field_raises:
  assumes "position e = Some local_pos" and "playback_status e = Some local_status"
    and "\<forall>t. paused_until r = Some t \<longrightarrow> t = 0 \<or> t \<le> now e"
    and "receive_data (recv e) = Some (p, d, s)"
    and "flt p = None \<or> flt d = None"
  shows "fst (update flt cfg e r) = Raised ValueError"
proof (cases "paused_until r")
  case None
  then show ?thesis
    using assms(1,2,4) handle_data_non_numeric[OF assms(5)] by (simp add: update_def Let_def)
next
  case (Some t)
  then have "t = 0 \<or> t \<le> now e" using assms(3) by simp
  then show ?thesis
    using Some assms(1,2,4) handle_data_non_numeric[OF assms(5)]
    by (auto simp add: update_def Let_def)
qed

subsection \<open>Concrete runs\<close>

lemmas run_defs = update_def handle_data_def evaluate_drift_def receive_data_def reading_def
  init_def default_config_def decimal_float_def unsigned_decimal_def digit_def say_def
  deque_append_def calculate_median_def py_slice_def perform_small_sync_def
  reset_small_sync_def resume_def Let_def

lemma warm_up:
  "update_loop decimal_float default_config
     [(Some ''Playing'', reading ''2%100%Playing'' 1 100 1000),
      (Some ''Playing'', reading ''3%100%Playing'' 2 100 1001)] init
   = (None, init\<lparr>received_position := Some 3, received_duration := Some 100,
        received_status := Some ''Playing'', last_measure_time := 1001, deviation := 1,
        deviations := [1, 1], median_deviation := 1, duration_match := Some True\<rparr>)"
  by (simp add: run_defs)

subsection \<open>The rate level stays in range\<close>

text \<open>
  C6. The rate level starts at 1 and is 0, 1 or 2 after any number of rounds of the
  update loop. From a level in that range, the small sync, the rate reset and a whole
  call of \<open>update\<close> each leave it in the range and move it by at most one step, so a
  small-sync command is only sent when the new level is in range. At the bound in the
  needed direction (follower ahead at level 0, follower behind at level 2) the small
  sync changes nothing: no command, same level.
\<close>

theorem rate_level_in_range:
  "rate init = 1
   \<and> 0 \<le> rate (snd (update_loop flt cfg rounds init))
   \<and> rate (snd (update_loop flt cfg rounds init)) \<le> 2
   \<and> (0 \<le> rate r \<and> rate r \<le> 2 \<longrightarrow>
        0 \<le> rate (perform_small_sync r) \<and> rate (perform_small_sync r) \<le> 2
        \<and> \<bar>rate (perform_small_sync r) - rate r\<bar> \<le> 1
        \<and> 0 \<le> rate (reset_small_sync r) \<and> rate (reset_small_sync r) \<le> 2
        \<and> \<bar>rate (reset_small_sync r) - rate r\<bar> \<le> 1
        \<and> 0 \<le> rate (snd (update flt cfg e r)) \<and> rate (snd (update flt cfg e r)) \<le> 2
        \<and> \<bar>rate (snd (update flt cfg e r)) - rate r\<bar> \<le> 1)
   \<and> (deviation r < 0 \<and> rate r = 0 \<or> 0 < deviation r \<and> rate r = 2 \<longrightarrow>
        perform_small_sync r = r)"
proof (intro conjI impI)
  show "rate init = 1" by (simp add: init_def)
  have i: "0 \<le> rate init" "rate init \<le> 2" by (simp_all add: init_def)
  show "0 \<le> rate (snd (update_loop flt cfg rounds init))"
    and "rate (snd (update_loop flt cfg rounds init)) \<le> 2"
    using update_loop_rate[OF i] by simp_all
next
  assume "0 \<le> rate r \<and> rate r \<le> 2"
  then have h: "0 \<le> rate r" "rate r \<le> 2" by simp_all
  show "0 \<le> rate (perform_small_sync r)" "rate (perform_small_sync r) \<le> 2"
    "\<bar>rate (perform_small_sync r) - rate r\<bar> \<le> 1"
    using h by (simp_all add: perform_small_sync_def)
  show "0 \<le> rate (reset_small_sync r)" "rate (reset_small_sync r) \<le> 2"
    "\<bar>rate (reset_small_sync r) - rate r\<bar> \<le> 1"
    using h by (simp_all add: reset_small_sync_def Let_def)
  show "0 \<le> rate (snd (update flt cfg e r))" "rate (snd (update flt cfg e r)) \<le> 2"
    "\<bar>rate (snd (update flt cfg e r)) - rate r\<bar> \<le> 1"
    using update_rate[OF h] by simp_all
next
  assume "deviation r < 0 \<and> rate r = 0 \<or> 0 < deviation r \<and> rate r = 2"
  then show "perform_small_sync r = r" by (auto simp add: perform_small_sync_def)
qed

theorem rate_level_in_range_witness:
  "0 \<le> rate init \<and> rate init \<le> 2
   \<and> rate (perform_small_sync (init\<lparr>deviation := 1\<rparr>)) = 2
   \<and> rate (reset_small_sync init) = 1
   \<and> rate (snd (update decimal_float default_config (reading ''10%100%Playing'' 9 100 1000) init)) = 2
   \<and> deviation (init\<lparr>deviation := 1, rate := 2\<rparr>) > 0 \<and> rate (init\<lparr>deviation := 1, rate := 2\<rparr>) = 2
   \<and> perform_small_sync (init\<lparr>deviation := 1, rate := 2\<rparr>) = init\<lparr>deviation := 1, rate := 2\<rparr>"
  using rate_level_in_range [of decimal_float default_config "[]" init
          "reading ''10%100%Playing'' 9 100 1000"]
        rate_level_in_range [of decimal_float default_config "[]" "init\<lparr>deviation := 1, rate := 2\<rparr>"
          "reading ''10%100%Playing'' 9 100 1000"]
  by (simp add: run_defs)

subsection \<open>The history is cleared when a small sync is made\<close>

text \<open>What a call of \<open>update\<close> sends, and what a rate command among it means.\<close>

lemma update_rate_commands:
  assumes "update flt cfg e r = (out, r')"
  shows "(out = Synced \<longrightarrow> deviations r' = [])
       \<and> (\<exists>cs. sent r' = sent r @ cs
              \<and> Pause \<notin> set cs \<and> (\<forall>p. Set_position p \<notin> set cs)
              \<and> ((\<exists>a. Action a \<in> set cs) \<longrightarrow>
                    out = Synced \<and> deviations r' = []
                    \<or> (out = Near_end \<or> out = Within_tolerance)
                       \<and> rate r \<noteq> 1 \<and> rate r' = 1))"
proof -
  from update_sent[OF assms] obtain res pre cs where
    s: "sent r' = sent r @ res @ pre @ cs" "res = [] \<or> res = [Play]"
      "pre = [] \<or> pre = [Play_pause]" "\<forall>c\<in>set cs. \<exists>a. c = Action a"
      "cs \<noteq> [] \<longrightarrow> out = Synced \<and> deviations r' = []
         \<or> (out = Near_end \<or> out = Within_tolerance) \<and> rate r \<noteq> 1 \<and> rate r' = 1"
    by blast
  have a: "out = Synced \<longrightarrow> deviations r' = []"
    using assms
  proof (cases rule: update_cases)
    case (resumed local_pos local_status)
    then show ?thesis using handle_data_Synced(1) by blast
  next
    case (direct local_pos local_status)
    then show ?thesis using handle_data_Synced(1) by blast
  qed auto
  have b: "Pause \<notin> set (res @ pre @ cs)" "\<forall>p. Set_position p \<notin> set (res @ pre @ cs)"
    using s(2,3,4) by auto
  have c: "(\<exists>a. Action a \<in> set (res @ pre @ cs)) \<longrightarrow> cs \<noteq> []"
    using s(2,3) by auto
  show ?thesis
    using a b c s(1,5) by (intro conjI exI[of _ "res @ pre @ cs"]) simp_all
qed

text \<open>
  C3, as the code has it. The history is cleared by \<open>update\<close>, right before its small
  sync, and not by the sync methods. In every call of \<open>update\<close>: a call that gets to the
  small sync (\<open>Synced\<close>) ends with an empty deviation history; no call sends \<open>pause\<close> or
  a seek, so no call carries out a big sync; and when a call sends a rate command,
  either it is the small sync's, and the history is empty afterwards, or it is the rate
  reset of the end zone or of the dead band, which takes the level from 0 or 2 back to 1.
  \<open>_perform_big_sync\<close> itself, on any state, leaves the history exactly as it was.
\<close>

theorem small_sync_clears_history:
  assumes "update flt cfg e r = (out, r')"
  shows "(out = Synced \<longrightarrow> deviations r' = [])
       \<and> (\<exists>cs. sent r' = sent r @ cs
              \<and> Pause \<notin> set cs \<and> (\<forall>p. Set_position p \<notin> set cs)
              \<and> ((\<exists>a. Action a \<in> set cs) \<longrightarrow>
                    out = Synced \<and> deviations r' = []
                    \<or> (out = Near_end \<or> out = Within_tolerance)
                       \<and> rate r \<noteq> 1 \<and> rate r' = 1))
       \<and> deviations (snd (perform_big_sync big_cfg big_r)) = deviations big_r"
proof -
  have "deviations (snd (perform_big_sync big_cfg big_r)) = deviations big_r"
    by (rule perform_big_sync_keeps_history)
  then show ?thesis using update_rate_commands[OF assms] by simp
qed

theorem small_sync_clears_history_witness:
  "update decimal_float default_config (reading ''10%100%Playing'' 9 100 1000) init
     = (Synced,
        init\<lparr>received_position := Some 10, received_duration := Some 100,
          received_status := Some ''Playing'', last_measure_time := 1000, deviation := 1,
          median_deviation := 1, duration_match := Some True, rate := 2,
          sent := [Action 2]\<rparr>)
   \<and> deviations
        (init\<lparr>received_position := Some 10, received_duration := Some 100,
           received_status := Some ''Playing'', last_measure_time := 1000, deviation := 1,
           median_deviation := 1, duration_match := Some True, rate := 2,
           sent := [Action 2]\<rparr>) = []
   \<and> deviations
        (snd (perform_big_sync default_config
           (init\<lparr>received_position := Some 50, last_measure_time := 1000, deviation := 5,
              deviations := [5, 5, 5]\<rparr>))) = [5, 5, 5]"
proof -
  let ?e = "reading ''10%100%Playing'' 9 100 1000"
  let ?r' = "init\<lparr>received_position := Some 10, received_duration := Some 100,
          received_status := Some ''Playing'', last_measure_time := 1000, deviation := 1,
          median_deviation := 1, duration_match := Some True, rate := 2,
          sent := [Action 2]\<rparr>"
  let ?b = "init\<lparr>received_position := Some 50, last_measure_time := 1000, deviation := 5,
              deviations := [5, 5, 5]\<rparr>"
  have u: "update decimal_float default_config ?e init = (Synced, ?r')"
    by (simp add: run_defs)
  have "deviations ?r' = []
        \<and> deviations (snd (perform_big_sync default_config ?b)) = deviations ?b"
    using small_sync_clears_history[OF u, of default_config ?b] by simp
  then show ?thesis using u by simp
qed

text \<open>
  The history is not cleared by every correction: a big sync on a receiver that is 5
  seconds behind, with 5, 5, 5 in its history, pauses and seeks to the leader position
  plus 3, and the history is still 5, 5, 5.
\<close>

theorem big_sync_leaves_history:
  "perform_big_sync default_config
     (init\<lparr>received_position := Some 50, last_measure_time := 1000, deviation := 5,
        deviations := [5, 5, 5]\<rparr>)
   = (None,
      init\<lparr>received_position := Some 50, last_measure_time := 1000, deviation := 5,
        deviations := [5, 5, 5], sent := [Pause, Set_position 53],
        paused_until := Some 1003\<rparr>)
   \<and> deviations
        (init\<lparr>received_position := Some 50, last_measure_time := 1000, deviation := 5,
           deviations := [5, 5, 5], sent := [Pause, Set_position 53],
           paused_until := Some 1003\<rparr>) \<noteq> []"
  by (simp add: perform_big_sync_def say_def init_def default_config_def)

subsection \<open>A final step with raw deviation 0\<close>

text \<open>
  C10. When a call of \<open>update\<close> gets to its final step while the raw deviation of this
  call is exactly 0, the history is cleared, the rate level is unchanged and no rate
  command is among the commands of the call. The run after the theorem shows that this
  happens: two rounds near the start leave 1, 1 in the history, the third has raw
  deviation 0 and median 1.
\<close>

theorem update_sync_zero_deviation:
  assumes "update flt cfg e r = (Synced, r')" and "deviation r' = 0"
  shows "deviations r' = [] \<and> rate r' = rate r
         \<and> (\<exists>cs. sent r' = sent r @ cs \<and> (\<forall>a. Action a \<notin> set cs))"
  using assms(1)
proof (cases rule: update_cases)
  case (resumed local_pos local_status)
  from handle_data_Synced[OF resumed] assms(2) obtain pre where
    "deviations r' = []" "rate r' = rate r" "sent r' = sent r @ [Play] @ pre"
    "pre = [] \<or> pre = [Play_pause]"
    by (auto simp add: resume_fields)
  then show ?thesis by (intro conjI exI[of _ "[Play] @ pre"]) auto
next
  case (direct local_pos local_status)
  from handle_data_Synced[OF direct] assms(2) obtain pre where
    "deviations r' = []" "rate r' = rate r" "sent r' = sent r @ pre"
    "pre = [] \<or> pre = [Play_pause]"
    by auto
  then show ?thesis by (intro conjI exI[of _ pre]) auto
qed auto

theorem update_sync_zero_deviation_witness:
  "update decimal_float default_config (reading ''4%100%Playing'' 4 100 1002)
     (snd (update_loop decimal_float default_config
        [(Some ''Playing'', reading ''2%100%Playing'' 1 100 1000),
         (Some ''Playing'', reading ''3%100%Playing'' 2 100 1001)] init))
   = (Synced,
      init\<lparr>received_position := Some 4, received_duration := Some 100,
        received_status := Some ''Playing'', last_measure_time := 1002, deviation := 0,
        deviations := [], median_deviation := 1, duration_match := Some True\<rparr>)
   \<and> deviations (snd (update_loop decimal_float default_config
        [(Some ''Playing'', reading ''2%100%Playing'' 1 100 1000),
         (Some ''Playing'', reading ''3%100%Playing'' 2 100 1001)] init)) = [1, 1]
   \<and> deviation (init\<lparr>received_position := Some 4, received_duration := Some 100,
        received_status := Some ''Playing'', last_measure_time := 1002, deviation := 0,
        deviations := [], median_deviation := 1, duration_match := Some True\<rparr>) = 0
   \<and> deviations (init\<lparr>received_position := Some 4, received_duration := Some 100,
        received_status := Some ''Playing'', last_measure_time := 1002, deviation := 0,
        deviations := [], median_deviation := 1, duration_match := Some True\<rparr>) = []"
  using update_sync_zero_deviation [of decimal_float default_config
          "reading ''4%100%Playing'' 4 100 1002"
          "snd (update_loop decimal_float default_config
            [(Some ''Playing'', reading ''2%100%Playing'' 1 100 1000),
             (Some ''Playing'', reading ''3%100%Playing'' 2 100 1001)] init)"
          "init\<lparr>received_position := Some 4, received_duration := Some 100,
            received_status := Some ''Playing'', last_measure_time := 1002, deviation := 0,
            deviations := [], median_deviation := 1, duration_match := Some True\<rparr>"]
  by (simp add: warm_up) (simp add: run_defs)

subsection \<open>Waiting for the leader to catch up\<close>

text \<open>
  C8. A call of \<open>update\<close> that has read the player's position and status, with
  \<open>paused_until\<close> set (to a time the test \<open>if self.paused_until:\<close> takes as set, that is
  not 0.0). While now is before \<open>paused_until\<close> the call returns with only
  \<open>last_measure_time\<close> changed: no command, nothing printed. From \<open>paused_until\<close> on it
  clears \<open>paused_until\<close>, sends \<open>play\<close>, sets \<open>dont_sync_until\<close> to now plus
  \<open>grace_time\<close> and goes on: the call is the call of a receiver in that state with no
  pause pending, and at its end \<open>paused_until\<close> is still clear, \<open>dont_sync_until\<close> is
  still now plus \<open>grace_time\<close> and \<open>play\<close> is the first command sent.
\<close>

theorem update_paused_until:
  assumes "position e = Some local_pos" and "playback_status e = Some local_status"
    and "paused_until r = Some t" and "t \<noteq> 0"
  shows "(now e < t \<longrightarrow>
            update flt cfg e r = (Still_waiting, r\<lparr>last_measure_time := now e\<rparr>))
       \<and> (t \<le> now e \<longrightarrow>
            update flt cfg e r
              = update flt cfg e
                  ((say cfg Resuming
                      (r\<lparr>last_measure_time := now e, paused_until := None,
                         sent := sent r @ [Play]\<rparr>))
                   \<lparr>dont_sync_until := now e + grace_time cfg\<rparr>)
            \<and> paused_until (snd (update flt cfg e r)) = None
            \<and> dont_sync_until (snd (update flt cfg e r)) = now e + grace_time cfg
            \<and> (\<exists>cs. sent (snd (update flt cfg e r)) = sent r @ Play # cs))"
proof (intro conjI impI)
  assume "now e < t"
  then show "update flt cfg e r = (Still_waiting, r\<lparr>last_measure_time := now e\<rparr>)"
    using assms by (simp add: update_def)
next
  assume late: "t \<le> now e"
  let ?r1 = "resume cfg (r\<lparr>last_measure_time := now e\<rparr>)"
  let ?rest = "handle_data flt cfg e local_pos local_status (receive_data (recv e)) ?r1"
  have u: "update flt cfg e r = ?rest"
    using assms late by (simp add: update_def Let_def)
  have r1: "?r1 = (say cfg Resuming
                      (r\<lparr>last_measure_time := now e, paused_until := None,
                         sent := sent r @ [Play]\<rparr>))
                   \<lparr>dont_sync_until := now e + grace_time cfg\<rparr>"
    by (cases r) (simp add: resume_def Let_def say_def)
  have same: "?r1\<lparr>last_measure_time := now e\<rparr> = ?r1"
    by (cases r) (simp add: resume_def Let_def say_def)
  have "update flt cfg e ?r1 = ?rest"
    using assms(1,2) same by (simp add: update_def Let_def resume_fields)
  then show "update flt cfg e r
              = update flt cfg e
                  ((say cfg Resuming
                      (r\<lparr>last_measure_time := now e, paused_until := None,
                         sent := sent r @ [Play]\<rparr>))
                   \<lparr>dont_sync_until := now e + grace_time cfg\<rparr>)"
    using u r1 by simp
  obtain out r' where h: "?rest = (out, r')" by (cases ?rest)
  from handle_data_keeps[OF h]
  show "paused_until (snd (update flt cfg e r)) = None"
    and "dont_sync_until (snd (update flt cfg e r)) = now e + grace_time cfg"
    using u h by (simp_all add: resume_fields)
  from handle_data_sent[OF h] obtain pre cs where "sent r' = (sent r @ [Play]) @ pre @ cs"
    by (auto simp add: resume_fields)
  then show "\<exists>cs. sent (snd (update flt cfg e r)) = sent r @ Play # cs"
    using u h by simp
qed

theorem update_paused_until_witness:
  "position (reading ''10%100%Playing'' 9 100 1003) = Some 9
   \<and> playback_status (reading ''10%100%Playing'' 9 100 1003) = Some ''Playing''
   \<and> paused_until (init\<lparr>paused_until := Some 1005\<rparr>) = Some 1005 \<and> (1005 :: real) \<noteq> 0
   \<and> now (reading ''10%100%Playing'' 9 100 1003) < 1005
   \<and> update decimal_float default_config (reading ''10%100%Playing'' 9 100 1003)
        (init\<lparr>paused_until := Some 1005\<rparr>)
      = (Still_waiting, init\<lparr>paused_until := Some 1005, last_measure_time := 1003\<rparr>)
   \<and> 1005 \<le> now (reading ''10%100%Playing'' 9 100 1006)
   \<and> update decimal_float default_config (reading ''10%100%Playing'' 9 100 1006)
        (init\<lparr>paused_until := Some 1005\<rparr>)
      = (In_grace,
         init\<lparr>received_position := Some 10, received_duration := Some 100,
           received_status := Some ''Playing'', last_measure_time := 1006,
           dont_sync_until := 1009, deviation := 1, deviations := [1], median_deviation := 1,
           duration_match := Some True, sent := [Play]\<rparr>)"
  using update_paused_until [of "reading ''10%100%Playing'' 9 100 1003" 9 "''Playing''"
          "init\<lparr>paused_until := Some 1005\<rparr>" 1005 decimal_float default_config]
        update_paused_until [of "reading ''10%100%Playing'' 9 100 1006" 9 "''Playing''"
          "init\<lparr>paused_until := Some 1005\<rparr>" 1005 decimal_float default_config]
  by (simp add: run_defs)

text \<open>
  \<open>paused_until = 0.0\<close> is false for Python, so the call goes on as with no pause; no
  run of \<open>_perform_big_sync\<close> with a positive clock and \<open>jump_ahead\<close> produces that value.
\<close>

lemma zero_paused_until_is_unset:
  assumes "position e = Some local_pos" and "playback_status e = Some local_status"
    and "paused_until r = Some 0"
  shows "update flt cfg e r
         = handle_data flt cfg e local_pos local_status (receive_data (recv e))
             (r\<lparr>last_measure_time := now e\<rparr>)"
  using assms by (simp add: update_def Let_def)

subsection \<open>Matching the leader's status\<close>

text \<open>
  C7. A call of \<open>update\<close> that gets to a fresh sample: the player's position and status
  were read, no pause is pending (or it is over), and the datagram has three fields with
  numeric position and duration. If the local status differs from the leader's, a
  \<open>play_pause\<close> is sent, after the \<open>play\<close> of a resume if there was one and before
  every rate command of the call; if the statuses agree, none is sent. If the leader's
  status is "Paused" the call stops there: no rate command, and the deviation, the
  history, the median and the rate level are what they were.
\<close>

theorem update_status_toggle:
  assumes "update flt cfg e r = (out, r')"
    and "position e = Some local_pos" and "playback_status e = Some local_status"
    and "\<forall>t. paused_until r = Some t \<longrightarrow> t = 0 \<or> t \<le> now e"
    and "receive_data (recv e) = Some (p, d, leader_status)"
    and "flt p = Some fp" and "flt d = Some fd"
  shows "(\<exists>res cs. sent r' = sent r @ res
                       @ (if local_status \<noteq> leader_status then [Play_pause] else []) @ cs
            \<and> (res = [] \<or> res = [Play])
            \<and> (\<forall>c\<in>set cs. \<exists>a. c = Action a)
            \<and> (leader_status = ''Paused'' \<longrightarrow> cs = []))
       \<and> (leader_status = ''Paused'' \<longrightarrow>
            out = Leader_paused \<and> deviation r' = deviation r \<and> deviations r' = deviations r
            \<and> median_deviation r' = median_deviation r \<and> rate r' = rate r)"
proof -
  let ?r1 = "r\<lparr>last_measure_time := now e\<rparr>"
  consider (direct) "handle_data flt cfg e local_pos local_status (Some (p, d, leader_status)) ?r1
                       = (out, r')"
    | (resumed) "handle_data flt cfg e local_pos local_status (Some (p, d, leader_status))
                   (resume cfg ?r1) = (out, r')"
    using assms(1-5) by (auto simp add: update_def Let_def split: option.splits if_splits)
  then show ?thesis
  proof cases
    case direct
    from handle_data_sample(1)[OF direct assms(6,7)] obtain cs where
      "sent r' = sent r @ [] @ (if local_status \<noteq> leader_status then [Play_pause] else []) @ cs"
      "\<forall>c\<in>set cs. \<exists>a. c = Action a" "leader_status = ''Paused'' \<longrightarrow> cs = []"
      by auto
    then have "\<exists>res cs. sent r' = sent r @ res
                       @ (if local_status \<noteq> leader_status then [Play_pause] else []) @ cs
            \<and> (res = [] \<or> res = [Play])
            \<and> (\<forall>c\<in>set cs. \<exists>a. c = Action a)
            \<and> (leader_status = ''Paused'' \<longrightarrow> cs = [])"
      by blast
    then show ?thesis using handle_data_sample(2)[OF direct assms(6,7)] by simp
  next
    case resumed
    from handle_data_sample(1)[OF resumed assms(6,7)] obtain cs where
      "sent r' = sent r @ [Play] @ (if local_status \<noteq> leader_status then [Play_pause] else []) @ cs"
      "\<forall>c\<in>set cs. \<exists>a. c = Action a" "leader_status = ''Paused'' \<longrightarrow> cs = []"
      by (auto simp add: resume_fields)
    then have "\<exists>res cs. sent r' = sent r @ res
                       @ (if local_status \<noteq> leader_status then [Play_pause] else []) @ cs
            \<and> (res = [] \<or> res = [Play])
            \<and> (\<forall>c\<in>set cs. \<exists>a. c = Action a)
            \<and> (leader_status = ''Paused'' \<longrightarrow> cs = [])"
      by blast
    then show ?thesis using handle_data_sample(2)[OF resumed assms(6,7)]
      by (simp add: resume_def say_def Let_def)
  qed
qed

theorem update_status_toggle_witness:
  "update decimal_float default_config (reading ''10%100%Paused'' 9 100 1000)
     (init\<lparr>deviations := [1]\<rparr>)
   = (Leader_paused,
      init\<lparr>deviations := [1], received_position := Some 10, received_duration := Some 100,
        received_status := Some ''Paused'', last_measure_time := 1000,
        sent := [Play_pause]\<rparr>)
   \<and> position (reading ''10%100%Paused'' 9 100 1000) = Some 9
   \<and> playback_status (reading ''10%100%Paused'' 9 100 1000) = Some ''Playing''
   \<and> paused_until (init\<lparr>deviations := [1]\<rparr>) = None
   \<and> receive_data (recv (reading ''10%100%Paused'' 9 100 1000))
       = Some (''10'', ''100'', ''Paused'')
   \<and> decimal_float ''10'' = Some 10 \<and> decimal_float ''100'' = Some 100"
  using update_status_toggle [of decimal_float default_config
          "reading ''10%100%Paused'' 9 100 1000" "init\<lparr>deviations := [1]\<rparr>" Leader_paused
          "init\<lparr>deviations := [1], received_position := Some 10, received_duration := Some 100,
             received_status := Some ''Paused'', last_measure_time := 1000,
             sent := [Play_pause]\<rparr>"
          9 "''Playing''" "''10''" "''100''" "''Paused''" 10 100]
  by (simp add: run_defs)

subsection \<open>The duration check\<close>

text \<open>
  C2, as the code has it. A call of \<open>update\<close> that gets to the duration check with
  \<open>duration_match\<close> unset (sample as in C7, leader not paused, the player gives a
  duration). If the leader's duration differs from the player's: the mismatch is printed
  once in this call, the call ends there with no rate command, the rate level and the
  history unchanged, and \<open>duration_match\<close> stays unset, so the next call checks again. If
  the two durations are equal: \<open>duration_match\<close> becomes true, nothing is reported and
  the call goes on to evaluate the drift.
\<close>

theorem update_duration_check:
  assumes "update flt cfg e r = (out, r')"
    and "position e = Some local_pos" and "playback_status e = Some local_status"
    and "\<forall>t. paused_until r = Some t \<longrightarrow> t = 0 \<or> t \<le> now e"
    and "receive_data (recv e) = Some (p, d, leader_status)"
    and "flt p = Some fp" and "flt d = Some leader_dur"
    and "leader_status \<noteq> ''Paused''"
    and "duration_match r = None" and "duration e = Some local_dur"
  shows "(leader_dur \<noteq> local_dur \<longrightarrow>
            out = Duration_mismatch \<and> duration_match r' = None
            \<and> (\<exists>ms. printed r' = printed r @ ms @ [Mismatch leader_dur (Some local_dur)]
                  \<and> (\<forall>m\<in>set ms. \<forall>a b. m \<noteq> Mismatch a b))
            \<and> rate r' = rate r \<and> deviations r' = deviations r
            \<and> (\<exists>cs. sent r' = sent r @ cs \<and> (\<forall>a. Action a \<notin> set cs)))
       \<and> (leader_dur = local_dur \<longrightarrow>
            out \<noteq> Duration_mismatch \<and> duration_match r' = Some True
            \<and> (\<exists>ms. printed r' = printed r @ ms \<and> (\<forall>m\<in>set ms. \<forall>a b. m \<noteq> Mismatch a b)))"
proof -
  let ?r1 = "r\<lparr>last_measure_time := now e\<rparr>"
  consider (direct) "handle_data flt cfg e local_pos local_status (Some (p, d, leader_status)) ?r1
                       = (out, r')"
    | (resumed) "handle_data flt cfg e local_pos local_status (Some (p, d, leader_status))
                   (resume cfg ?r1) = (out, r')"
    using assms(1-5) by (auto simp add: update_def Let_def split: option.splits if_splits)
  then show ?thesis
  proof cases
    case direct
    have dm: "duration_match ?r1 = None" using assms(9) by simp
    from handle_data_duration_check[OF direct assms(6,7,8) dm assms(10)]
    show ?thesis by simp
  next
    case resumed
    have dm: "duration_match (resume cfg ?r1) = None" using assms(9) by (simp add: resume_log)
    obtain ms0 where ms0: "printed (resume cfg ?r1) = printed r @ ms0"
      "\<forall>m\<in>set ms0. \<forall>a b. m \<noteq> Mismatch a b"
      using resume_log(2)[of cfg ?r1] by auto
    note h = handle_data_duration_check[OF resumed assms(6,7,8) dm assms(10)]
    show ?thesis
    proof (intro conjI impI)
      assume ne: "leader_dur \<noteq> local_dur"
      from h(1)[OF ne] show "out = Duration_mismatch" "duration_match r' = None"
        "rate r' = rate r" "deviations r' = deviations r"
        by (simp_all add: resume_fields)
      from h(1)[OF ne] obtain ms where
        "printed r' = printed r @ (ms0 @ ms) @ [Mismatch leader_dur (Some local_dur)]"
        "\<forall>m\<in>set ms. \<forall>a b. m \<noteq> Mismatch a b"
        using ms0(1) by auto
      then show "\<exists>ms. printed r' = printed r @ ms @ [Mismatch leader_dur (Some local_dur)]
                  \<and> (\<forall>m\<in>set ms. \<forall>a b. m \<noteq> Mismatch a b)"
        using ms0(2) by (intro exI[of _ "ms0 @ ms"]) auto
      from h(1)[OF ne] obtain cs where "sent r' = sent r @ Play # cs" "\<forall>a. Action a \<notin> set cs"
        by (auto simp add: resume_fields)
      then show "\<exists>cs. sent r' = sent r @ cs \<and> (\<forall>a. Action a \<notin> set cs)"
        by (intro exI[of _ "Play # cs"]) auto
    next
      assume eq: "leader_dur = local_dur"
      from h(2)[OF eq] show "out \<noteq> Duration_mismatch" "duration_match r' = Some True"
        by simp_all
      from h(2)[OF eq] obtain ms where "printed r' = printed r @ ms0 @ ms"
        "\<forall>m\<in>set ms. \<forall>a b. m \<noteq> Mismatch a b"
        using ms0(1) by auto
      then show "\<exists>ms. printed r' = printed r @ ms \<and> (\<forall>m\<in>set ms. \<forall>a b. m \<noteq> Mismatch a b)"
        using ms0(2) by (intro exI[of _ "ms0 @ ms"]) auto
    qed
  qed
qed

theorem update_duration_check_witness:
  "update decimal_float default_config (reading ''10%100%Playing'' 9 90 1000) init
     = (Duration_mismatch,
        init\<lparr>received_position := Some 10, received_duration := Some 100,
          received_status := Some ''Playing'', last_measure_time := 1000, deviation := 1,
          printed := [Mismatch 100 (Some 90)]\<rparr>)
   \<and> position (reading ''10%100%Playing'' 9 90 1000) = Some 9
   \<and> playback_status (reading ''10%100%Playing'' 9 90 1000) = Some ''Playing''
   \<and> paused_until init = None
   \<and> receive_data (recv (reading ''10%100%Playing'' 9 90 1000))
       = Some (''10'', ''100'', ''Playing'')
   \<and> decimal_float ''10'' = Some 10 \<and> decimal_float ''100'' = Some 100
   \<and> ''Playing'' \<noteq> ''Paused'' \<and> duration_match init = None
   \<and> duration (reading ''10%100%Playing'' 9 90 1000) = Some 90 \<and> (100 :: real) \<noteq> 90
   \<and> duration_match
        (init\<lparr>received_position := Some 10, received_duration := Some 100,
           received_status := Some ''Playing'', last_measure_time := 1000, deviation := 1,
           printed := [Mismatch 100 (Some 90)]\<rparr>) = None
   \<and> update decimal_float default_config (reading ''10%90%Playing'' 9 90 1000) init
     = (Synced,
        init\<lparr>received_position := Some 10, received_duration := Some 90,
          received_status := Some ''Playing'', last_measure_time := 1000, deviation := 1,
          median_deviation := 1, duration_match := Some True, rate := 2,
          sent := [Action 2]\<rparr>)
   \<and> receive_data (recv (reading ''10%90%Playing'' 9 90 1000))
       = Some (''10'', ''90'', ''Playing'')
   \<and> decimal_float ''90'' = Some 90
   \<and> duration_match
        (init\<lparr>received_position := Some 10, received_duration := Some 90,
           received_status := Some ''Playing'', last_measure_time := 1000, deviation := 1,
           median_deviation := 1, duration_match := Some True, rate := 2,
           sent := [Action 2]\<rparr>) = Some True"
proof -
  let ?e1 = "reading ''10%100%Playing'' 9 90 1000"
  let ?e2 = "reading ''10%90%Playing'' 9 90 1000"
  let ?r1 = "init\<lparr>received_position := Some 10, received_duration := Some 100,
          received_status := Some ''Playing'', last_measure_time := 1000, deviation := 1,
          printed := [Mismatch 100 (Some 90)]\<rparr>"
  let ?r2 = "init\<lparr>received_position := Some 10, received_duration := Some 90,
          received_status := Some ''Playing'', last_measure_time := 1000, deviation := 1,
          median_deviation := 1, duration_match := Some True, rate := 2,
          sent := [Action 2]\<rparr>"
  have u1: "update decimal_float default_config ?e1 init = (Duration_mismatch, ?r1)"
    by (simp add: run_defs)
  have u2: "update decimal_float default_config ?e2 init = (Synced, ?r2)"
    by (simp add: run_defs)
  have p1: "position ?e1 = Some 9" and s1: "playback_status ?e1 = Some ''Playing''"
    and d1: "duration ?e1 = Some 90"
    and p2: "position ?e2 = Some 9" and s2: "playback_status ?e2 = Some ''Playing''"
    and d2: "duration ?e2 = Some 90"
    by (simp_all add: reading_def)
  have w: "\<forall>t. paused_until init = Some t \<longrightarrow> t = 0 \<or> t \<le> now ?e1"
    "\<forall>t. paused_until init = Some t \<longrightarrow> t = 0 \<or> t \<le> now ?e2"
    and dm: "duration_match init = None" and pu: "paused_until init = None"
    by (simp_all add: init_def)
  have rd1: "receive_data (recv ?e1) = Some (''10'', ''100'', ''Playing'')"
    and rd2: "receive_data (recv ?e2) = Some (''10'', ''90'', ''Playing'')"
    by (simp_all add: reading_def receive_data_def)
  have f10: "decimal_float ''10'' = Some 10" and f100: "decimal_float ''100'' = Some 100"
    and f90: "decimal_float ''90'' = Some 90"
    by (simp_all add: decimal_float_def unsigned_decimal_def digit_def)
  have np: "''Playing'' \<noteq> ''Paused''" by simp
  have c1: "duration_match ?r1 = None"
    using update_duration_check[OF u1 p1 s1 w(1) rd1 f10 f100 np dm d1] by simp
  have c2: "duration_match ?r2 = Some True"
    using update_duration_check[OF u2 p2 s2 w(2) rd2 f10 f90 np dm d2] by simp
  show ?thesis
    using u1 u2 p1 s1 d1 pu rd1 rd2 f10 f100 f90 dm c1 c2 by simp
qed

text \<open>
  The suspension is not permanent and the report is not made once only: two rounds with
  leader duration 100 against 90 print the mismatch twice, and a third round whose
  datagram gives duration 90 sets \<open>duration_match\<close> and sends a speed-up command.
\<close>

theorem duration_mismatch_not_permanent:
  "update_loop decimal_float default_config
     [(Some ''Playing'', reading ''10%100%Playing'' 9 90 1000),
      (Some ''Playing'', reading ''11%100%Playing'' 10 90 1001),
      (Some ''Playing'', reading ''12%90%Playing'' 11 90 1002)] init
   = (None,
      init\<lparr>received_position := Some 12, received_duration := Some 90,
        received_status := Some ''Playing'', last_measure_time := 1002, deviation := 1,
        median_deviation := 1, duration_match := Some True, rate := 2, sent := [Action 2],
        printed := [Mismatch 100 (Some 90), Mismatch 100 (Some 90)]\<rparr>)"
  by (simp add: run_defs)

subsection \<open>A datagram whose fields are not numbers\<close>

text \<open>
  C1. The datagram \<open>abc%def%Playing\<close> has three fields, so \<open>_receive_data\<close> returns
  it, and \<open>float(data[0])\<close> in \<open>update\<close> raises ValueError outside any \<open>try\<close>: the call
  does not return as it does without data, and the update loop ends with the
  exception. With a numeric position and a non-numeric duration \<open>received_position\<close> has
  already been overwritten when the exception is raised.
\<close>

theorem update_non_numeric_raises:
  "update decimal_float default_config (reading ''abc%def%Playing'' 9 100 1000) init
     = (Raised ValueError, init\<lparr>last_measure_time := 1000\<rparr>)
   \<and> update decimal_float default_config (reading ''12%def%Playing'' 9 100 1000) init
     = (Raised ValueError, init\<lparr>last_measure_time := 1000, received_position := Some 12\<rparr>)
   \<and> update decimal_float default_config
        ((reading ''abc%def%Playing'' 9 100 1000)\<lparr>recv := None\<rparr>) init
     = (No_data, init\<lparr>last_measure_time := 1000\<rparr>)
   \<and> update_loop decimal_float default_config
        [(Some ''Playing'', reading ''abc%def%Playing'' 9 100 1000),
         (Some ''Playing'', reading ''10%100%Playing'' 9 100 1001)] init
     = (Some ValueError, init\<lparr>last_measure_time := 1000\<rparr>)"
  by (simp add: run_defs)

end
